theory Spec2Isabelle
  imports Complex_Main
begin

section \<open>Python values\<close>

text \<open>
  A Python \<open>str\<close> is a sequence of Unicode code points. String literals of the source
  that are plain ASCII are written with \<open>ascii\<close>; the Russian literals are given by
  their code points.
\<close>

type_synonym pystr = "nat list"

definition ascii :: "string \<Rightarrow> pystr" where
  "ascii s = map of_char s"

text \<open>
  The values \<open>response.json()\<close> can return: \<open>None\<close>, \<open>bool\<close>, \<open>int\<close>, \<open>float\<close>,
  \<open>str\<close>, \<open>list\<close> and \<open>dict\<close> with \<open>str\<close> keys. A dict is an association list in
  insertion order, looked up with \<open>map_of\<close>; a parsed document has distinct keys.
  A finite double is a rational number; the decoder also accepts the three special
  values.
\<close>

datatype pyfloat = Finite rat | PosInf | NegInf | NaN

datatype pyval =
    PyNone
  | PyBool bool
  | PyInt int
  | PyFloat pyfloat
  | PyStr pystr
  | PyList "pyval list"
  | PyDict "(pystr \<times> pyval) list"

text \<open>Truth value testing, as \<open>if x\<close>, \<open>not x\<close> and \<open>x or y\<close> use it.\<close>

fun truthy :: "pyval \<Rightarrow> bool" where
  "truthy PyNone = False"
| "truthy (PyBool b) = b"
| "truthy (PyInt i) = (i \<noteq> 0)"
| "truthy (PyFloat f) = (f \<noteq> Finite 0)"
| "truthy (PyStr s) = (s \<noteq> [])"
| "truthy (PyList xs) = (xs \<noteq> [])"
| "truthy (PyDict kvs) = (kvs \<noteq> [])"

text \<open>\<open>x == 1\<close>: numbers compare by value across \<open>bool\<close>, \<open>int\<close> and \<open>float\<close>.\<close>

fun eq_one :: "pyval \<Rightarrow> bool" where
  "eq_one (PyBool b) = b"
| "eq_one (PyInt i) = (i = 1)"
| "eq_one (PyFloat f) = (f = Finite 1)"
| "eq_one _ = False"

text \<open>\<open>x or d\<close>\<close>

definition py_or :: "pyval \<Rightarrow> pyval \<Rightarrow> pyval" where
  "py_or x d = (if truthy x then x else d)"

fun type_name :: "pyval \<Rightarrow> pystr" where
  "type_name PyNone = ascii ''NoneType''"
| "type_name (PyBool _) = ascii ''bool''"
| "type_name (PyInt _) = ascii ''int''"
| "type_name (PyFloat _) = ascii ''float''"
| "type_name (PyStr _) = ascii ''str''"
| "type_name (PyList _) = ascii ''list''"
| "type_name (PyDict _) = ascii ''dict''"

subsection \<open>Exceptions\<close>

text \<open>
  Every exception of the model is an instance of \<open>Exception\<close>, so \<open>except Exception\<close>
  catches it. \<open>Raised m\<close> is an exception of the HTTP library or the JSON decoder whose
  \<open>str\<close> is \<open>m\<close>; \<open>Exception m\<close> is the one the client builds itself.
\<close>

datatype pyexc =
    AttributeError pystr pystr
  | TypeError pystr
  | KeyError pystr
  | Raised pystr
  | Exception pystr

text \<open>The apostrophe, as it occurs in the messages of the interpreter.\<close>

definition apos :: pystr where
  "apos = [39]"

fun str_exc :: "pyexc \<Rightarrow> pystr" where
  "str_exc (AttributeError t a) =
     apos @ t @ apos @ ascii '' object has no attribute '' @ apos @ a @ apos"
| "str_exc (TypeError m) = m"
| "str_exc (KeyError k) = apos @ k @ apos"
| "str_exc (Raised m) = m"
| "str_exc (Exception m) = m"

definition bind_exc :: "pyexc + 'a \<Rightarrow> ('a \<Rightarrow> pyexc + 'b) \<Rightarrow> pyexc + 'b" where
  "bind_exc m f = (case m of Inl e \<Rightarrow> Inl e | Inr v \<Rightarrow> f v)"

text \<open>\<open>x.get(k, d)\<close>: only a dict has the method; on a dict it is \<open>get_or\<close>.\<close>

definition get_or :: "(pystr \<times> pyval) list \<Rightarrow> pystr \<Rightarrow> pyval \<Rightarrow> pyval" where
  "get_or kvs k d = (case map_of kvs k of None \<Rightarrow> d | Some v \<Rightarrow> v)"

definition dict_get :: "pyval \<Rightarrow> pystr \<Rightarrow> pyval \<Rightarrow> pyexc + pyval" where
  "dict_get x k d =
     (case x of
        PyDict kvs \<Rightarrow> Inr (get_or kvs k d)
      | _ \<Rightarrow> Inl (AttributeError (type_name x) (ascii ''get'')))"

text \<open>\<open>for x in v\<close>: a list gives its elements, a dict its keys, a str its characters.\<close>

definition py_iter :: "pyval \<Rightarrow> pyexc + pyval list" where
  "py_iter v =
     (case v of
        PyList xs \<Rightarrow> Inr xs
      | PyDict kvs \<Rightarrow> Inr (map (\<lambda>kv. PyStr (fst kv)) kvs)
      | PyStr s \<Rightarrow> Inr (map (\<lambda>c. PyStr [c]) s)
      | _ \<Rightarrow> Inl (TypeError (apos @ type_name v @ apos @ ascii '' object is not iterable'')))"

subsection \<open>String methods\<close>

text \<open>The characters \<open>str.isspace\<close> accepts; \<open>str.strip()\<close> removes them at both ends.\<close>

definition isspace :: "nat \<Rightarrow> bool" where
  "isspace c \<longleftrightarrow>
     (9 \<le> c \<and> c \<le> 13) \<or> (28 \<le> c \<and> c \<le> 32) \<or> c = 133 \<or> c = 160 \<or> c = 5760 \<or>
     (8192 \<le> c \<and> c \<le> 8202) \<or> c = 8232 \<or> c = 8233 \<or> c = 8239 \<or> c = 8287 \<or> c = 12288"

definition strip :: "pystr \<Rightarrow> pystr" where
  "strip s = rev (dropWhile isspace (rev (dropWhile isspace s)))"

text \<open>\<open>v.strip()\<close> on a JSON value: only a str has the method.\<close>

definition py_strip :: "pyval \<Rightarrow> pyexc + pystr" where
  "py_strip v =
     (case v of
        PyStr s \<Rightarrow> Inr (strip s)
      | _ \<Rightarrow> Inl (AttributeError (type_name v) (ascii ''strip'')))"

text \<open>
  \<open>str.isdigit\<close>: every character has Numeric_Type Digit or Decimal, and there is at
  least one. The ranges are those of the Unicode 14.0 character database.
\<close>

definition digit_ranges :: "(nat \<times> nat) list" where
  "digit_ranges =
    [(48, 57), (178, 179), (185, 185), (1632, 1641), (1776, 1785), (1984, 1993),
     (2406, 2415), (2534, 2543), (2662, 2671), (2790, 2799), (2918, 2927), (3046, 3055),
     (3174, 3183), (3302, 3311), (3430, 3439), (3558, 3567), (3664, 3673), (3792, 3801),
     (3872, 3881), (4160, 4169), (4240, 4249), (4969, 4977), (6112, 6121), (6160, 6169),
     (6470, 6479), (6608, 6618), (6784, 6793), (6800, 6809), (6992, 7001), (7088, 7097),
     (7232, 7241), (7248, 7257), (8304, 8304), (8308, 8313), (8320, 8329), (9312, 9320),
     (9332, 9340), (9352, 9360), (9450, 9450), (9461, 9469), (9471, 9471), (10102, 10110),
     (10112, 10120), (10122, 10130), (42528, 42537), (43216, 43225), (43264, 43273),
     (43472, 43481), (43504, 43513), (43600, 43609), (44016, 44025), (65296, 65305),
     (66720, 66729), (68160, 68163), (68912, 68921), (69216, 69224), (69714, 69722),
     (69734, 69743), (69872, 69881), (69942, 69951), (70096, 70105), (70384, 70393),
     (70736, 70745), (70864, 70873), (71248, 71257), (71360, 71369), (71472, 71481),
     (71904, 71913), (72016, 72025), (72784, 72793), (73040, 73049), (73120, 73129),
     (92768, 92777), (92864, 92873), (93008, 93017), (120782, 120831), (123200, 123209),
     (123632, 123641), (125264, 125273), (127232, 127242), (130032, 130041)]"

definition isdigit_char :: "nat \<Rightarrow> bool" where
  "isdigit_char c = list_ex (\<lambda>r. fst r \<le> c \<and> c \<le> snd r) digit_ranges"

definition isdigit :: "pystr \<Rightarrow> bool" where
  "isdigit s \<longleftrightarrow> s \<noteq> [] \<and> list_all isdigit_char s"

section \<open>The network and the state\<close>

text \<open>
  \<open>session.get(url, params=..., timeout=...)\<close> either raises or returns a response
  with a status code; \<open>response.json()\<close> either raises or returns the decoded value.
  What the provider answers is not the program's: \<open>net n r\<close> is the outcome of request
  \<open>r\<close> when \<open>n\<close> requests were sent before it.
\<close>

datatype request = Get pystr "(pystr \<times> pyval) list" nat

datatype body = Malformed pyexc | Json pyval

datatype outcome = Raises pyexc | Response int body

type_synonym network = "nat \<Rightarrow> request \<Rightarrow> outcome"

text \<open>
  The calls \<open>SearchThread.run\<close> makes on the \<open>FoodDatabase\<close> object, in order. They are
  recorded at the call site.
\<close>

datatype client_call =
    GetProductByBarcode pystr
  | SearchProducts pystr int
  | CleanProductData pyval

text \<open>
  \<open>cache\<close> is \<open>FoodDatabase.cache\<close>; \<open>sent\<close> lists the HTTP requests issued so far and
  \<open>calls\<close> the client calls made by the worker.
\<close>

record state =
  cache :: "pystr \<rightharpoonup> pyval"
  sent :: "request list"
  calls :: "client_call list"

definition session_get :: "network \<Rightarrow> state \<Rightarrow> request \<Rightarrow> outcome \<times> state" where
  "session_get net s r = (net (length (sent s)) r, s\<lparr>sent := sent s @ [r]\<rparr>)"

section \<open>FoodDatabase\<close>

definition not_found :: pyval where
  "not_found = PyDict [(ascii ''status'', PyInt 0), (ascii ''product'', PyNone)]"

definition barcode_url :: "pystr \<Rightarrow> pystr" where
  "barcode_url b =
     ascii ''https://world.openfoodfacts.org/api/v0/product/'' @ b @ ascii ''.json''"

definition search_url :: pystr where
  "search_url = ascii ''https://world.openfoodfacts.org/cgi/search.pl''"

text \<open>
  The prefixes of the wrapped exceptions, Russian for \<open>"Error: "\<close> and
  \<open>"Search error: "\<close>, as code points.
\<close>

definition lookup_prefix :: pystr where
  "lookup_prefix = [1054, 1096, 1080, 1073, 1082, 1072, 58, 32]"

definition search_prefix :: pystr where
  "search_prefix =
     [1054, 1096, 1080, 1073, 1082, 1072, 32, 1087, 1086, 1080, 1089, 1082, 1072, 58, 32]"

text \<open>The body of the \<open>try\<close> block of \<open>get_product_by_barcode\<close>.\<close>

definition barcode_try :: "network \<Rightarrow> state \<Rightarrow> pystr \<Rightarrow> (pyexc + pyval) \<times> state" where
  "barcode_try net s b =
     (case session_get net s (Get (barcode_url b) [] 8) of
        (Raises e, s1) \<Rightarrow> (Inl e, s1)
      | (Response code bd, s1) \<Rightarrow>
          if code = 200 then
            (case bd of
               Malformed e \<Rightarrow> (Inl e, s1)
             | Json data \<Rightarrow>
                 (case dict_get data (ascii ''status'') PyNone of
                    Inl e \<Rightarrow> (Inl e, s1)
                  | Inr st \<Rightarrow>
                      if eq_one st then
                        (case dict_get data (ascii ''product'') PyNone of
                           Inl e \<Rightarrow> (Inl e, s1)
                         | Inr p \<Rightarrow>
                             if truthy p
                             then (Inr data, s1\<lparr>cache := (cache s1)(b \<mapsto> data)\<rparr>)
                             else (Inr not_found, s1))
                      else (Inr not_found, s1)))
          else (Inr not_found, s1))"

definition get_product_by_barcode ::
    "network \<Rightarrow> state \<Rightarrow> pystr \<Rightarrow> (pyexc + pyval) \<times> state" where
  "get_product_by_barcode net s b =
     (case cache s b of
        Some d \<Rightarrow> (Inr d, s)
      | None \<Rightarrow>
          (case barcode_try net s b of
             (Inl e, s1) \<Rightarrow> (Inl (Exception (lookup_prefix @ str_exc e)), s1)
           | (Inr d, s1) \<Rightarrow> (Inr d, s1)))"

text \<open>The loop of \<open>search_products\<close> that fills \<open>valid_products\<close>.\<close>

fun valid_products :: "pyval list \<Rightarrow> pyval list \<Rightarrow> pyexc + pyval list" where
  "valid_products [] acc = Inr acc"
| "valid_products (p # ps) acc =
     bind_exc (dict_get p (ascii ''product_name'') PyNone) (\<lambda>n.
       if truthy n then valid_products ps (acc @ [p])
       else bind_exc (dict_get p (ascii ''brands'') PyNone) (\<lambda>br.
         if truthy br then valid_products ps (acc @ [p]) else valid_products ps acc))"

definition search_params :: "pystr \<Rightarrow> int \<Rightarrow> (pystr \<times> pyval) list" where
  "search_params q page_size =
     [(ascii ''search_terms'', PyStr q), (ascii ''json'', PyInt 1),
      (ascii ''page_size'', PyInt page_size)]"

definition search_try :: "network \<Rightarrow> state \<Rightarrow> pystr \<Rightarrow> int \<Rightarrow> (pyexc + pyval) \<times> state" where
  "search_try net s q page_size =
     (case session_get net s (Get search_url (search_params q page_size) 10) of
        (Raises e, s1) \<Rightarrow> (Inl e, s1)
      | (Response code bd, s1) \<Rightarrow>
          (case bd of
             Malformed e \<Rightarrow> (Inl e, s1)
           | Json data \<Rightarrow>
               (bind_exc (dict_get data (ascii ''products'') (PyList [])) (\<lambda>ps.
                bind_exc (py_iter ps) (\<lambda>items.
                bind_exc (valid_products items []) (\<lambda>valid.
                  Inr (PyDict [(ascii ''products'', PyList valid)])))), s1)))"

definition search_products :: "network \<Rightarrow> state \<Rightarrow> pystr \<Rightarrow> int \<Rightarrow> (pyexc + pyval) \<times> state" where
  "search_products net s q page_size =
     (case search_try net s q page_size of
        (Inl e, s1) \<Rightarrow> (Inl (Exception (search_prefix @ str_exc e)), s1)
      | (Inr d, s1) \<Rightarrow> (Inr d, s1))"

text \<open>
  \<open>extract_nutrition\<close> builds \<open>nutrition_data\<close> by four conditional insertions; the
  keys are distinct, so appending is the insertion.
\<close>

definition nutrition_entry ::
    "pyval \<Rightarrow> pystr \<Rightarrow> pystr \<Rightarrow> (pystr \<times> pyval) list \<Rightarrow> pyexc + (pystr \<times> pyval) list" where
  "nutrition_entry nutr src dst acc =
     bind_exc (dict_get nutr src PyNone) (\<lambda>v.
       if truthy v then Inr (acc @ [(dst, v)]) else Inr acc)"

definition extract_nutrition :: "pyval \<Rightarrow> pyexc + (pystr \<times> pyval) list" where
  "extract_nutrition nutr =
     (if \<not> truthy nutr then Inr []
      else
        bind_exc (nutrition_entry nutr (ascii ''energy-kcal_100g'') (ascii ''kcal_100g'') []) (\<lambda>d1.
        bind_exc (nutrition_entry nutr (ascii ''proteins_100g'') (ascii ''protein_100g'') d1) (\<lambda>d2.
        bind_exc (nutrition_entry nutr (ascii ''fat_100g'') (ascii ''fat_100g'') d2) (\<lambda>d3.
        nutrition_entry nutr (ascii ''carbohydrates_100g'') (ascii ''carbs_100g'') d3))))"

text \<open>
  The placeholders: the Russian literal for \<open>"Unknown product"\<close> and the em dash
  (U+2014), as code points.
\<close>

definition unknown_product :: pystr where
  "unknown_product =
     [1053, 1077, 1080, 1079, 1074, 1077, 1089, 1090, 1085, 1099, 1081, 32,
      1087, 1088, 1086, 1076, 1091, 1082, 1090]"

definition dash :: pystr where
  "dash = [8212]"

text \<open>
  The dict \<open>clean_product_data\<close> returns: either the empty dict or one with exactly the
  keys \<open>name\<close>, \<open>brand\<close>, \<open>barcode\<close>, \<open>quantity\<close> and \<open>nutriments\<close>.
\<close>

record product_record =
  name :: pystr
  brand :: pystr
  barcode :: pyval
  quantity :: pyval
  nutriments :: pyval

datatype cleaned = EmptyDict | Record product_record

definition placeholder_if_blank :: "pystr \<Rightarrow> pystr \<Rightarrow> pystr" where
  "placeholder_if_blank s ph = (if s = [] \<or> s = ascii ''null'' then ph else s)"

definition clean_product_data :: "pyval \<Rightarrow> pyexc + cleaned" where
  "clean_product_data product =
     (if \<not> truthy product then Inr EmptyDict
      else
        bind_exc (dict_get product (ascii ''product_name'') (PyStr [])) (\<lambda>n0.
        bind_exc (py_strip n0) (\<lambda>n1.
        bind_exc (dict_get product (ascii ''brands'') (PyStr [])) (\<lambda>b0.
        bind_exc (py_strip b0) (\<lambda>b1.
        bind_exc (dict_get product (ascii ''code'') PyNone) (\<lambda>c.
        bind_exc (dict_get product (ascii ''quantity'') PyNone) (\<lambda>q.
        bind_exc (dict_get product (ascii ''nutriments'') (PyDict [])) (\<lambda>nu.
          Inr (Record \<lparr>name = placeholder_if_blank n1 unknown_product,
                       brand = placeholder_if_blank b1 dash,
                       barcode = py_or c (PyStr dash),
                       quantity = py_or q (PyStr dash),
                       nutriments = nu\<rparr>)))))))))"

section \<open>SearchThread\<close>

datatype signal = search_complete "product_record list" | search_error pystr

text \<open>The message of the empty query, Russian for \<open>"Enter a query"\<close>, as code points.\<close>

definition enter_query :: pystr where
  "enter_query = [1042, 1074, 1077, 1076, 1080, 1090, 1077, 32, 1079, 1072, 1087, 1088, 1086, 1089]"

definition note_call :: "client_call \<Rightarrow> state \<Rightarrow> state" where
  "note_call c s = s\<lparr>calls := calls s @ [c]\<rparr>"

text \<open>
  The barcode branch of \<open>run\<close>: the candidate list is \<open>[result["product"]]\<close> when the
  result has status 1 and a truthy product, and empty otherwise.
\<close>

definition barcode_products :: "pyval \<Rightarrow> pyexc + pyval list" where
  "barcode_products result =
     bind_exc (dict_get result (ascii ''status'') PyNone) (\<lambda>st.
       if eq_one st then
         bind_exc (dict_get result (ascii ''product'') PyNone) (\<lambda>p.
           if truthy p then Inr [p] else Inr [])
       else Inr [])"

text \<open>The candidate list of \<open>run\<close>, by the two branches of the classification.\<close>

definition fetch_products :: "network \<Rightarrow> state \<Rightarrow> pystr \<Rightarrow> (pyexc + pyval list) \<times> state" where
  "fetch_products net s query =
     (if isdigit query \<and> 8 \<le> length query then
        (case get_product_by_barcode net (note_call (GetProductByBarcode query) s) query of
           (Inl e, s1) \<Rightarrow> (Inl e, s1)
         | (Inr result, s1) \<Rightarrow> (barcode_products result, s1))
      else
        (case search_products net (note_call (SearchProducts query 25) s) query 25 of
           (Inl e, s1) \<Rightarrow> (Inl e, s1)
         | (Inr result, s1) \<Rightarrow>
             (bind_exc (dict_get result (ascii ''products'') (PyList [])) py_iter, s1)))"

text \<open>
  The loop over the candidates. \<open>cleaned['name']\<close> on the empty dict raises
  \<open>KeyError('name')\<close>.
\<close>

fun clean_loop ::
    "pyval list \<Rightarrow> product_record list \<Rightarrow> state \<Rightarrow> (pyexc + product_record list) \<times> state" where
  "clean_loop [] acc s = (Inr acc, s)"
| "clean_loop (p # ps) acc s =
     (let s1 = note_call (CleanProductData p) s in
      case clean_product_data p of
        Inl e \<Rightarrow> (Inl e, s1)
      | Inr EmptyDict \<Rightarrow> (Inl (KeyError (ascii ''name'')), s1)
      | Inr (Record r) \<Rightarrow>
          if name r \<noteq> unknown_product then clean_loop ps (acc @ [r]) s1
          else clean_loop ps acc s1)"

text \<open>
  The \<open>try\<close> block of \<open>run\<close>: the signals it has emitted, whether it ended normally
  or by raising, and the state.
\<close>

definition run_try :: "network \<Rightarrow> state \<Rightarrow> pystr \<Rightarrow> signal list \<times> (pyexc + unit) \<times> state" where
  "run_try net s query0 =
     (let query = strip query0 in
      if query = [] then ([search_error enter_query], Inr (), s)
      else
        (case fetch_products net s query of
           (Inl e, s1) \<Rightarrow> ([], Inl e, s1)
         | (Inr products, s1) \<Rightarrow>
             (case clean_loop products [] s1 of
                (Inl e, s2) \<Rightarrow> ([], Inl e, s2)
              | (Inr cleaned_products, s2) \<Rightarrow>
                  ([search_complete cleaned_products], Inr (), s2))))"

text \<open>\<open>run\<close>: the \<open>except\<close> clause emits \<open>search_error\<close> with \<open>str(e)\<close>.\<close>

definition run :: "network \<Rightarrow> state \<Rightarrow> pystr \<Rightarrow> signal list \<times> state" where
  "run net s query0 =
     (case run_try net s query0 of
        (sigs, Inl e, s1) \<Rightarrow> (sigs @ [search_error (str_exc e)], s1)
      | (sigs, Inr _, s1) \<Rightarrow> (sigs, s1))"

section \<open>Auxiliary notions for the statements\<close>

text \<open>A string without whitespace at either end, which is what \<open>strip\<close> returns.\<close>

definition trimmed :: "pystr \<Rightarrow> bool" where
  "trimmed s \<longleftrightarrow> s = [] \<or> (\<not> isspace (hd s) \<and> \<not> isspace (last s))"

text \<open>
  The dict that \<open>clean_product_data\<close> returns, as the Python value it is: the literal
  \<open>{'name': ..., 'brand': ..., 'barcode': ..., 'quantity': ..., 'nutriments': ...}\<close>.
\<close>

definition record_dict :: "product_record \<Rightarrow> pyval" where
  "record_dict r =
     PyDict [(ascii ''name'', PyStr (name r)), (ascii ''brand'', PyStr (brand r)),
             (ascii ''barcode'', barcode r), (ascii ''quantity'', quantity r),
             (ascii ''nutriments'', nutriments r)]"

fun cleaned_dict :: "cleaned \<Rightarrow> pyval" where
  "cleaned_dict EmptyDict = PyDict []"
| "cleaned_dict (Record r) = record_dict r"

text \<open>
  The field values of a record under the keys that \<open>clean_product_data\<close> reads:
  \<open>product_name\<close>, \<open>brands\<close>, \<open>code\<close>, \<open>quantity\<close> and \<open>nutriments\<close>.
\<close>

definition raw_of_record :: "product_record \<Rightarrow> pyval" where
  "raw_of_record r =
     PyDict [(ascii ''product_name'', PyStr (name r)), (ascii ''brands'', PyStr (brand r)),
             (ascii ''code'', barcode r), (ascii ''quantity'', quantity r),
             (ascii ''nutriments'', nutriments r)]"

text \<open>\<open>result.get("status") == 1 and result.get("product")\<close> on a dict.\<close>

definition found :: "(pystr \<times> pyval) list \<Rightarrow> bool" where
  "found kvs \<longleftrightarrow>
     eq_one (get_or kvs (ascii ''status'') PyNone) \<and> truthy (get_or kvs (ascii ''product'') PyNone)"

text \<open>
  A successful lookup: the next request gets status code 200 and a dict with status 1
  and a truthy product.
\<close>

definition lookup_succeeds :: "network \<Rightarrow> state \<Rightarrow> pystr \<Rightarrow> bool" where
  "lookup_succeeds net s b \<longleftrightarrow>
     (\<exists>kvs. net (length (sent s)) (Get (barcode_url b) [] 8) = Response 200 (Json (PyDict kvs)) \<and>
            found kvs)"

section \<open>Example environments\<close>

text \<open>The state after \<open>FoodDatabase.__init__\<close>, before any call.\<close>

definition initial_state :: state where
  "initial_state = \<lparr>cache = Map.empty, sent = [], calls = []\<rparr>"

text \<open>A network on which every request times out.\<close>

definition offline :: network where
  "offline = (\<lambda>n r. Raises (Raised (ascii ''timed out'')))"

text \<open>A provider that answers every request with the given status code and document.\<close>

definition serving :: "int \<Rightarrow> pyval \<Rightarrow> network" where
  "serving code doc = (\<lambda>n r. Response code (Json doc))"

definition milk :: pyval where
  "milk = PyDict [(ascii ''product_name'', PyStr (ascii ''Milk''))]"

definition acme :: pyval where
  "acme = PyDict [(ascii ''product_name'', PyStr []), (ascii ''brands'', PyStr (ascii ''Acme''))]"

definition milk_document :: pyval where
  "milk_document = PyDict [(ascii ''status'', PyInt 1), (ascii ''product'', milk)]"

text \<open>A product with padded name and the brand \<open>null\<close>.\<close>

definition padded :: pyval where
  "padded = PyDict [(ascii ''product_name'', PyStr (ascii ''  Milk '')),
                    (ascii ''brands'', PyStr (ascii ''null''))]"

text \<open>Nutriments with a zero fat value and no carbohydrates.\<close>

definition yogurt_nutriments :: pyval where
  "yogurt_nutriments =
     PyDict [(ascii ''energy-kcal_100g'', PyInt 61), (ascii ''fat_100g'', PyInt 0),
             (ascii ''proteins_100g'', PyFloat (Finite (7 / 2)))]"

definition ean :: pystr where
  "ean = ascii ''4006381333931''"

definition yogurt :: pystr where
  "yogurt = ascii ''yogurt''"

text \<open>What \<open>clean_product_data\<close> makes of \<open>milk\<close>.\<close>

definition milk_record :: product_record where
  "milk_record = \<lparr>name = ascii ''Milk'', brand = dash, barcode = PyStr dash,
                   quantity = PyStr dash, nutriments = PyDict []\<rparr>"

section \<open>Basic facts\<close>

lemma ascii_eq_iff [simp]: "ascii s = ascii t \<longleftrightarrow> s = t"
  by (simp add: ascii_def inj_map_eq_map [OF inj_of_char])

lemma ascii_Nil_iff [simp]: "ascii s = [] \<longleftrightarrow> s = []"
  by (simp add: ascii_def)

lemma bind_exc_Inl [simp]: "bind_exc (Inl e) f = Inl e"
  by (simp add: bind_exc_def)

lemma bind_exc_Inr [simp]: "bind_exc (Inr v) f = f v"
  by (simp add: bind_exc_def)

lemma dict_get_dict [simp]: "dict_get (PyDict kvs) k d = Inr (get_or kvs k d)"
  by (simp add: dict_get_def)

lemma get_or_absent: "map_of kvs k = None \<Longrightarrow> get_or kvs k d = d"
  by (simp add: get_or_def)

lemma get_or_present: "map_of kvs k = Some v \<Longrightarrow> get_or kvs k d = v"
  by (simp add: get_or_def)

lemma get_or_Nil [simp]: "get_or [] k d = d"
  by (simp add: get_or_def)

lemma get_or_Cons [simp]:
  "get_or ((k', v) # kvs) k d = (if k = k' then v else get_or kvs k d)"
  by (simp add: get_or_def)

subsection \<open>Stripping\<close>

lemma strip_Nil [simp]: "strip [] = []"
  by (simp add: strip_def)

lemma strip_trimmed: "trimmed s \<Longrightarrow> strip s = s"
proof (cases "s = []")
  case True
  then show ?thesis by simp
next
  case False
  assume "trimmed s"
  with False have h: "\<not> isspace (hd s)" and l: "\<not> isspace (last s)"
    by (simp_all add: trimmed_def)
  from False h have a: "dropWhile isspace s = s"
    by (cases s) simp_all
  from False l have b: "dropWhile isspace (rev s) = rev s"
    by (cases "rev s") (simp_all add: last_rev [symmetric] hd_rev)
  show ?thesis by (simp add: strip_def a b)
qed

lemma trimmed_strip: "trimmed (strip s)"
proof (cases "strip s = []")
  case True
  then show ?thesis by (simp add: trimmed_def)
next
  case False
  define t where "t = dropWhile isspace s"
  define u where "u = dropWhile isspace (rev t)"
  have su: "strip s = rev u" by (simp add: strip_def t_def u_def)
  with False have une: "u \<noteq> []" by simp
  then have hu: "\<not> isspace (hd u)"
    unfolding u_def by (rule hd_dropWhile)
  from une have tne: "t \<noteq> []" by (auto simp: u_def)
  then have ht: "\<not> isspace (hd t)"
    unfolding t_def by (rule hd_dropWhile)
  obtain ys where ys: "rev t = ys @ u"
    by (metis takeWhile_dropWhile_id u_def)
  then have "t = rev u @ rev ys" by (metis rev_append rev_rev_ident)
  with une have "hd t = hd (rev u)" by simp
  with ht have "\<not> isspace (hd (rev u))" by simp
  moreover from hu une have "\<not> isspace (last (rev u))" by (simp add: last_rev)
  ultimately show ?thesis by (simp add: trimmed_def su)
qed

lemma strip_strip [simp]: "strip (strip s) = strip s"
  by (rule strip_trimmed [OF trimmed_strip])

lemma strip_unknown_product [simp]: "strip unknown_product = unknown_product"
  by (simp add: strip_def isspace_def unknown_product_def)

lemma strip_dash [simp]: "strip dash = dash"
  by (simp add: strip_def isspace_def dash_def)

lemma unknown_product_not_blank [simp]:
  "unknown_product \<noteq> []" "unknown_product \<noteq> ascii ''null''"
  by (simp_all add: unknown_product_def ascii_def)

lemma dash_not_blank [simp]: "dash \<noteq> []" "dash \<noteq> ascii ''null''"
  by (simp_all add: dash_def ascii_def)

section \<open>extract_nutrition\<close>

lemma nutrition_entry_dict:
  "nutrition_entry (PyDict kvs) src dst acc =
     Inr (acc @ (if truthy (get_or kvs src PyNone) then [(dst, get_or kvs src PyNone)] else []))"
  by (simp add: nutrition_entry_def)

lemma extract_nutrition_dict:
  "extract_nutrition (PyDict kvs) =
     Inr ((if truthy (get_or kvs (ascii ''energy-kcal_100g'') PyNone)
           then [(ascii ''kcal_100g'', get_or kvs (ascii ''energy-kcal_100g'') PyNone)] else []) @
          (if truthy (get_or kvs (ascii ''proteins_100g'') PyNone)
           then [(ascii ''protein_100g'', get_or kvs (ascii ''proteins_100g'') PyNone)] else []) @
          (if truthy (get_or kvs (ascii ''fat_100g'') PyNone)
           then [(ascii ''fat_100g'', get_or kvs (ascii ''fat_100g'') PyNone)] else []) @
          (if truthy (get_or kvs (ascii ''carbohydrates_100g'') PyNone)
           then [(ascii ''carbs_100g'', get_or kvs (ascii ''carbohydrates_100g'') PyNone)] else []))"
proof (cases "kvs = []")
  case True
  then show ?thesis by (simp add: extract_nutrition_def)
next
  case False
  then show ?thesis
    by (simp only: extract_nutrition_def truthy.simps nutrition_entry_dict bind_exc_Inr
          append_Nil append_assoc not_not if_False)
qed

lemma truthy_get_or_iff:
  "(truthy (get_or kvs k PyNone) \<and> get_or kvs k PyNone = v) \<longleftrightarrow> (map_of kvs k = Some v \<and> truthy v)"
  by (cases "map_of kvs k") (auto simp: get_or_def)

lemma map_of_entry:
  "map_of (if c then [(k, v)] else []) k' = (if c \<and> k' = k then Some v else None)"
  by simp

text \<open>
  C3. On every dict \<open>extract_nutrition\<close> returns a dict and raises nothing. Each of
  the four output keys \<open>kcal_100g\<close>, \<open>protein_100g\<close>, \<open>fat_100g\<close> and
  \<open>carbs_100g\<close> is present, with the source's value, exactly when its source key
  (\<open>energy-kcal_100g\<close>, \<open>proteins_100g\<close>, \<open>fat_100g\<close>, \<open>carbohydrates_100g\<close>) is
  present with a value that tests true; so a missing source key leaves the field
  absent. The output has no other key.
\<close>

theorem extract_nutrition_fields:
  "\<exists>out. extract_nutrition (PyDict kvs) = Inr out \<and>
     (\<forall>v. map_of out (ascii ''kcal_100g'') = Some v \<longleftrightarrow>
            map_of kvs (ascii ''energy-kcal_100g'') = Some v \<and> truthy v) \<and>
     (\<forall>v. map_of out (ascii ''protein_100g'') = Some v \<longleftrightarrow>
            map_of kvs (ascii ''proteins_100g'') = Some v \<and> truthy v) \<and>
     (\<forall>v. map_of out (ascii ''fat_100g'') = Some v \<longleftrightarrow>
            map_of kvs (ascii ''fat_100g'') = Some v \<and> truthy v) \<and>
     (\<forall>v. map_of out (ascii ''carbs_100g'') = Some v \<longleftrightarrow>
            map_of kvs (ascii ''carbohydrates_100g'') = Some v \<and> truthy v) \<and>
     dom (map_of out) \<subseteq>
       {ascii ''kcal_100g'', ascii ''protein_100g'', ascii ''fat_100g'', ascii ''carbs_100g''}"
proof -
  define e1 where "e1 = (if truthy (get_or kvs (ascii ''energy-kcal_100g'') PyNone)
           then [(ascii ''kcal_100g'', get_or kvs (ascii ''energy-kcal_100g'') PyNone)] else [])"
  define e2 where "e2 = (if truthy (get_or kvs (ascii ''proteins_100g'') PyNone)
           then [(ascii ''protein_100g'', get_or kvs (ascii ''proteins_100g'') PyNone)] else [])"
  define e3 where "e3 = (if truthy (get_or kvs (ascii ''fat_100g'') PyNone)
           then [(ascii ''fat_100g'', get_or kvs (ascii ''fat_100g'') PyNone)] else [])"
  define e4 where "e4 = (if truthy (get_or kvs (ascii ''carbohydrates_100g'') PyNone)
           then [(ascii ''carbs_100g'', get_or kvs (ascii ''carbohydrates_100g'') PyNone)] else [])"
  have out: "extract_nutrition (PyDict kvs) = Inr (e1 @ e2 @ e3 @ e4)"
    unfolding e1_def e2_def e3_def e4_def by (rule extract_nutrition_dict)
  have m1: "map_of e1 k = (if truthy (get_or kvs (ascii ''energy-kcal_100g'') PyNone) \<and> k = ascii ''kcal_100g''
              then Some (get_or kvs (ascii ''energy-kcal_100g'') PyNone) else None)" for k
    unfolding e1_def by (rule map_of_entry)
  have m2: "map_of e2 k = (if truthy (get_or kvs (ascii ''proteins_100g'') PyNone) \<and> k = ascii ''protein_100g''
              then Some (get_or kvs (ascii ''proteins_100g'') PyNone) else None)" for k
    unfolding e2_def by (rule map_of_entry)
  have m3: "map_of e3 k = (if truthy (get_or kvs (ascii ''fat_100g'') PyNone) \<and> k = ascii ''fat_100g''
              then Some (get_or kvs (ascii ''fat_100g'') PyNone) else None)" for k
    unfolding e3_def by (rule map_of_entry)
  have m4: "map_of e4 k = (if truthy (get_or kvs (ascii ''carbohydrates_100g'') PyNone) \<and> k = ascii ''carbs_100g''
              then Some (get_or kvs (ascii ''carbohydrates_100g'') PyNone) else None)" for k
    unfolding e4_def by (rule map_of_entry)
  have k1: "map_of (e1 @ e2 @ e3 @ e4) (ascii ''kcal_100g'') = map_of e1 (ascii ''kcal_100g'')"
    by (simp add: map_add_def m2 m3 m4 split: option.split)
  have k2: "map_of (e1 @ e2 @ e3 @ e4) (ascii ''protein_100g'') = map_of e2 (ascii ''protein_100g'')"
    by (simp add: map_add_def m1 m3 m4 split: option.split)
  have k3: "map_of (e1 @ e2 @ e3 @ e4) (ascii ''fat_100g'') = map_of e3 (ascii ''fat_100g'')"
    by (simp add: map_add_def m1 m2 m4 split: option.split)
  have k4: "map_of (e1 @ e2 @ e3 @ e4) (ascii ''carbs_100g'') = map_of e4 (ascii ''carbs_100g'')"
    by (simp add: map_add_def m1 m2 m3 split: option.split)
  have f1: "map_of (e1 @ e2 @ e3 @ e4) (ascii ''kcal_100g'') = Some v \<longleftrightarrow>
            map_of kvs (ascii ''energy-kcal_100g'') = Some v \<and> truthy v" for v
    unfolding k1 m1 using truthy_get_or_iff [of kvs "ascii ''energy-kcal_100g''" v] by auto
  have f2: "map_of (e1 @ e2 @ e3 @ e4) (ascii ''protein_100g'') = Some v \<longleftrightarrow>
            map_of kvs (ascii ''proteins_100g'') = Some v \<and> truthy v" for v
    unfolding k2 m2 using truthy_get_or_iff [of kvs "ascii ''proteins_100g''" v] by auto
  have f3: "map_of (e1 @ e2 @ e3 @ e4) (ascii ''fat_100g'') = Some v \<longleftrightarrow>
            map_of kvs (ascii ''fat_100g'') = Some v \<and> truthy v" for v
    unfolding k3 m3 using truthy_get_or_iff [of kvs "ascii ''fat_100g''" v] by auto
  have f4: "map_of (e1 @ e2 @ e3 @ e4) (ascii ''carbs_100g'') = Some v \<longleftrightarrow>
            map_of kvs (ascii ''carbohydrates_100g'') = Some v \<and> truthy v" for v
    unfolding k4 m4 using truthy_get_or_iff [of kvs "ascii ''carbohydrates_100g''" v] by auto
  have d: "dom (map_of (e1 @ e2 @ e3 @ e4)) \<subseteq>
       {ascii ''kcal_100g'', ascii ''protein_100g'', ascii ''fat_100g'', ascii ''carbs_100g''}"
    by (auto simp: dom_map_of_conv_image_fst e1_def e2_def e3_def e4_def split: if_splits)
  from out f1 f2 f3 f4 d show ?thesis by blast
qed

theorem extract_nutrition_fields_witness:
  "extract_nutrition yogurt_nutriments =
     Inr [(ascii ''kcal_100g'', PyInt 61), (ascii ''protein_100g'', PyFloat (Finite (7 / 2)))] \<and>
   map_of [(ascii ''kcal_100g'', PyInt 61), (ascii ''protein_100g'', PyFloat (Finite (7 / 2)))]
     (ascii ''carbs_100g'') = None"
  using extract_nutrition_fields [of
      "[(ascii ''energy-kcal_100g'', PyInt 61), (ascii ''fat_100g'', PyInt 0),
        (ascii ''proteins_100g'', PyFloat (Finite (7 / 2)))]"]
  by (simp add: extract_nutrition_def yogurt_nutriments_def nutrition_entry_def)

section \<open>clean_product_data\<close>

lemma clean_dict:
  "kvs \<noteq> [] \<Longrightarrow> clean_product_data (PyDict kvs) =
     bind_exc (py_strip (get_or kvs (ascii ''product_name'') (PyStr []))) (\<lambda>n1.
     bind_exc (py_strip (get_or kvs (ascii ''brands'') (PyStr []))) (\<lambda>b1.
       Inr (Record \<lparr>name = placeholder_if_blank n1 unknown_product,
                    brand = placeholder_if_blank b1 dash,
                    barcode = py_or (get_or kvs (ascii ''code'') PyNone) (PyStr dash),
                    quantity = py_or (get_or kvs (ascii ''quantity'') PyNone) (PyStr dash),
                    nutriments = get_or kvs (ascii ''nutriments'') (PyDict [])\<rparr>)))"
  by (simp add: clean_product_data_def)

lemma clean_non_dict:
  "truthy product \<Longrightarrow> \<forall>kvs. product \<noteq> PyDict kvs \<Longrightarrow>
   clean_product_data product = Inl (AttributeError (type_name product) (ascii ''get''))"
  by (cases product) (simp_all add: clean_product_data_def dict_get_def)

lemma py_strip_Inr_iff: "py_strip v = Inr t \<longleftrightarrow> (\<exists>s. v = PyStr s \<and> t = strip s)"
  by (cases v) (auto simp: py_strip_def)

lemma placeholder_not_Nil: "ph \<noteq> [] \<Longrightarrow> placeholder_if_blank s ph \<noteq> []"
  by (simp add: placeholder_if_blank_def)

lemma placeholder_trimmed: "trimmed ph \<Longrightarrow> trimmed (placeholder_if_blank (strip s) ph)"
  by (simp add: placeholder_if_blank_def trimmed_strip)

lemma clean_dict_str:
  assumes "kvs \<noteq> []"
    and "get_or kvs (ascii ''product_name'') (PyStr []) = PyStr n"
    and "get_or kvs (ascii ''brands'') (PyStr []) = PyStr b"
  shows "clean_product_data (PyDict kvs) =
     Inr (Record \<lparr>name = placeholder_if_blank (strip n) unknown_product,
                  brand = placeholder_if_blank (strip b) dash,
                  barcode = py_or (get_or kvs (ascii ''code'') PyNone) (PyStr dash),
                  quantity = py_or (get_or kvs (ascii ''quantity'') PyNone) (PyStr dash),
                  nutriments = get_or kvs (ascii ''nutriments'') (PyDict [])\<rparr>)"
  unfolding clean_dict [OF assms(1)] assms(2) assms(3)
  by (simp add: py_strip_def)

lemma clean_dict_Inr:
  assumes "clean_product_data (PyDict kvs) = Inr c" and "kvs \<noteq> []"
  shows "\<exists>n b. get_or kvs (ascii ''product_name'') (PyStr []) = PyStr n \<and>
               get_or kvs (ascii ''brands'') (PyStr []) = PyStr b"
proof -
  obtain n1 where n1: "py_strip (get_or kvs (ascii ''product_name'') (PyStr [])) = Inr n1"
    using assms unfolding clean_dict [OF assms(2)]
    by (cases "py_strip (get_or kvs (ascii ''product_name'') (PyStr []))") simp_all
  obtain b1 where b1: "py_strip (get_or kvs (ascii ''brands'') (PyStr [])) = Inr b1"
    using assms unfolding clean_dict [OF assms(2)] n1
    by (cases "py_strip (get_or kvs (ascii ''brands'') (PyStr []))") simp_all
  from n1 b1 show ?thesis by (auto simp: py_strip_Inr_iff)
qed

lemma clean_Inr_dict:
  assumes "clean_product_data product = Inr (Record r)"
  shows "\<exists>kvs. product = PyDict kvs \<and> kvs \<noteq> []"
proof (cases "truthy product")
  case True
  show ?thesis
  proof (rule ccontr)
    assume "\<not> ?thesis"
    with True have "\<forall>kvs. product \<noteq> PyDict kvs" by auto
    with True assms show False by (simp add: clean_non_dict)
  qed
next
  case False
  with assms show ?thesis by (simp add: clean_product_data_def)
qed

text \<open>
  C7. \<open>clean_product_data\<close> returns a record exactly for a non-empty dict whose
  \<open>product_name\<close> and \<open>brands\<close> are strings or absent, and the record is then the
  one given: name and brand are stripped, and replaced by the placeholder when the
  stripped string is empty or the literal \<open>null\<close>; barcode and quantity are the
  dash when \<open>code\<close> and \<open>quantity\<close> are absent (or test false); the nutriments
  are carried through. Name and brand of every record returned are non-empty and
  have no whitespace at either end.
\<close>

theorem clean_product_data_record:
  "(clean_product_data product = Inr (Record r) \<longleftrightarrow>
     (\<exists>kvs n b. product = PyDict kvs \<and> kvs \<noteq> [] \<and>
        get_or kvs (ascii ''product_name'') (PyStr []) = PyStr n \<and>
        get_or kvs (ascii ''brands'') (PyStr []) = PyStr b \<and>
        r = \<lparr>name = (if strip n = [] \<or> strip n = ascii ''null'' then unknown_product else strip n),
              brand = (if strip b = [] \<or> strip b = ascii ''null'' then dash else strip b),
              barcode = py_or (get_or kvs (ascii ''code'') PyNone) (PyStr dash),
              quantity = py_or (get_or kvs (ascii ''quantity'') PyNone) (PyStr dash),
              nutriments = get_or kvs (ascii ''nutriments'') (PyDict [])\<rparr>)) \<and>
   (clean_product_data product = Inr (Record r) \<longrightarrow>
      name r \<noteq> [] \<and> brand r \<noteq> [] \<and> trimmed (name r) \<and> trimmed (brand r) \<and>
      (\<forall>kvs. product = PyDict kvs \<longrightarrow>
         (map_of kvs (ascii ''code'') = None \<longrightarrow> barcode r = PyStr dash) \<and>
         (map_of kvs (ascii ''quantity'') = None \<longrightarrow> quantity r = PyStr dash) \<and>
         (\<forall>v. map_of kvs (ascii ''nutriments'') = Some v \<longrightarrow> nutriments r = v)))"
  (is "(?L \<longleftrightarrow> ?R) \<and> (?L \<longrightarrow> ?Q)")
proof -
  have tu: "trimmed unknown_product" "trimmed dash"
    by (simp_all add: trimmed_def unknown_product_def dash_def isspace_def)
  have LR: "?R" if L: ?L
  proof -
    from L obtain kvs where p: "product = PyDict kvs" and ne: "kvs \<noteq> []"
      using clean_Inr_dict by blast
    from L p ne obtain n b where
      n: "get_or kvs (ascii ''product_name'') (PyStr []) = PyStr n" and
      b: "get_or kvs (ascii ''brands'') (PyStr []) = PyStr b"
      using clean_dict_Inr by blast
    from L have "r = \<lparr>name = placeholder_if_blank (strip n) unknown_product,
                  brand = placeholder_if_blank (strip b) dash,
                  barcode = py_or (get_or kvs (ascii ''code'') PyNone) (PyStr dash),
                  quantity = py_or (get_or kvs (ascii ''quantity'') PyNone) (PyStr dash),
                  nutriments = get_or kvs (ascii ''nutriments'') (PyDict [])\<rparr>"
      unfolding p clean_dict_str [OF ne n b] by simp
    then have "r = \<lparr>name = (if strip n = [] \<or> strip n = ascii ''null'' then unknown_product else strip n),
              brand = (if strip b = [] \<or> strip b = ascii ''null'' then dash else strip b),
              barcode = py_or (get_or kvs (ascii ''code'') PyNone) (PyStr dash),
              quantity = py_or (get_or kvs (ascii ''quantity'') PyNone) (PyStr dash),
              nutriments = get_or kvs (ascii ''nutriments'') (PyDict [])\<rparr>"
      by (simp only: placeholder_if_blank_def)
    with p ne n b show ?R by blast
  qed
  have RL: "?L" if R: ?R
  proof -
    from R obtain kvs n b where p: "product = PyDict kvs" and ne: "kvs \<noteq> []" and
      n: "get_or kvs (ascii ''product_name'') (PyStr []) = PyStr n" and
      b: "get_or kvs (ascii ''brands'') (PyStr []) = PyStr b" and
      r: "r = \<lparr>name = (if strip n = [] \<or> strip n = ascii ''null'' then unknown_product else strip n),
              brand = (if strip b = [] \<or> strip b = ascii ''null'' then dash else strip b),
              barcode = py_or (get_or kvs (ascii ''code'') PyNone) (PyStr dash),
              quantity = py_or (get_or kvs (ascii ''quantity'') PyNone) (PyStr dash),
              nutriments = get_or kvs (ascii ''nutriments'') (PyDict [])\<rparr>"
      by blast
    show ?L unfolding p clean_dict_str [OF ne n b] r
      by (simp only: placeholder_if_blank_def)
  qed
  have Q: "?Q" if L: ?L
  proof -
    from LR [OF L] obtain kvs n b where p: "product = PyDict kvs" and
      r: "r = \<lparr>name = (if strip n = [] \<or> strip n = ascii ''null'' then unknown_product else strip n),
              brand = (if strip b = [] \<or> strip b = ascii ''null'' then dash else strip b),
              barcode = py_or (get_or kvs (ascii ''code'') PyNone) (PyStr dash),
              quantity = py_or (get_or kvs (ascii ''quantity'') PyNone) (PyStr dash),
              nutriments = get_or kvs (ascii ''nutriments'') (PyDict [])\<rparr>"
      by blast
    have 1: "name r \<noteq> []" "brand r \<noteq> []" unfolding r by simp_all
    have 2: "trimmed (name r)" "trimmed (brand r)"
      unfolding r using tu by (simp_all add: trimmed_strip)
    have 3: "map_of kvs (ascii ''code'') = None \<longrightarrow> barcode r = PyStr dash"
      unfolding r by (simp add: get_or_absent py_or_def)
    have 4: "map_of kvs (ascii ''quantity'') = None \<longrightarrow> quantity r = PyStr dash"
      unfolding r by (simp add: get_or_absent py_or_def)
    have 5: "\<forall>v. map_of kvs (ascii ''nutriments'') = Some v \<longrightarrow> nutriments r = v"
      unfolding r by (simp add: get_or_present)
    from 1 2 3 4 5 p show ?Q by simp
  qed
  from LR RL Q show ?thesis by blast
qed

theorem clean_product_data_record_witness:
  "clean_product_data padded =
     Inr (Record \<lparr>name = ascii ''Milk'', brand = dash, barcode = PyStr dash,
                  quantity = PyStr dash, nutriments = PyDict []\<rparr>) \<and>
   trimmed (ascii ''Milk'') \<and> trimmed dash"
  using clean_product_data_record [of padded
      "\<lparr>name = ascii ''Milk'', brand = dash, barcode = PyStr dash,
        quantity = PyStr dash, nutriments = PyDict []\<rparr>"]
  by (simp add: clean_product_data_def padded_def py_strip_def strip_def isspace_def
        placeholder_if_blank_def py_or_def ascii_def)

text \<open>
  C10. For every falsy input (\<open>None\<close>, the empty dict, and any other value that tests
  false) \<open>clean_product_data\<close> returns the empty dict: none of the five fields is
  there and no placeholder is substituted.
\<close>

theorem clean_product_data_falsy:
  "\<not> truthy product \<Longrightarrow> clean_product_data product = Inr EmptyDict"
  by (simp add: clean_product_data_def)

theorem clean_product_data_falsy_witness:
  "\<not> truthy (PyDict []) \<and> clean_product_data (PyDict []) = Inr EmptyDict \<and>
   \<not> truthy PyNone \<and> clean_product_data PyNone = Inr EmptyDict"
  using clean_product_data_falsy [of "PyDict []"] clean_product_data_falsy [of PyNone]
  by simp

section \<open>search_products and the loops\<close>

lemma valid_products_keep:
  "truthy (get_or kvs (ascii ''product_name'') PyNone) \<or> truthy (get_or kvs (ascii ''brands'') PyNone)
   \<Longrightarrow> valid_products (PyDict kvs # ps) acc = valid_products ps (acc @ [PyDict kvs])"
  by auto

lemma valid_products_drop:
  "\<not> truthy (get_or kvs (ascii ''product_name'') PyNone) \<Longrightarrow>
   \<not> truthy (get_or kvs (ascii ''brands'') PyNone) \<Longrightarrow>
   valid_products (PyDict kvs # ps) acc = valid_products ps acc"
  by simp

lemma clean_loop_record:
  "clean_product_data p = Inr (Record r) \<Longrightarrow>
   clean_loop (p # ps) acc s =
     clean_loop ps (if name r \<noteq> unknown_product then acc @ [r] else acc)
       (note_call (CleanProductData p) s)"
  by (simp add: Let_def)

lemma search_products_response:
  "net (length (sent s)) (Get search_url (search_params q n) 10) = Response code (Json data) \<Longrightarrow>
   search_products net s q n =
     (case bind_exc (dict_get data (ascii ''products'') (PyList [])) (\<lambda>ps.
           bind_exc (py_iter ps) (\<lambda>items.
           bind_exc (valid_products items []) (\<lambda>valid.
             Inr (PyDict [(ascii ''products'', PyList valid)])))) of
        Inl e \<Rightarrow> Inl (Exception (search_prefix @ str_exc e))
      | Inr d \<Rightarrow> Inr d,
      s\<lparr>sent := sent s @ [Get search_url (search_params q n) 10]\<rparr>)"
  by (simp add: search_products_def search_try_def session_get_def split: sum.splits)

lemma sent_note_call [simp]: "sent (note_call c s) = sent s"
  by (simp add: note_call_def)

lemma cache_note_call [simp]: "cache (note_call c s) = cache s"
  by (simp add: note_call_def)

lemma calls_note_call [simp]: "calls (note_call c s) = calls s @ [c]"
  by (simp add: note_call_def)

section \<open>SearchThread.run\<close>

subsection \<open>What the calls leave in the state\<close>

lemma barcode_try_calls [simp]: "calls (snd (barcode_try net s b)) = calls s"
  by (simp add: barcode_try_def session_get_def split: outcome.splits body.splits sum.splits)

lemma barcode_try_sent [simp]:
  "sent (snd (barcode_try net s b)) = sent s @ [Get (barcode_url b) [] 8]"
  by (simp add: barcode_try_def session_get_def split: outcome.splits body.splits sum.splits)

lemma get_product_by_barcode_calls [simp]:
  "calls (snd (get_product_by_barcode net s b)) = calls s"
proof (cases "cache s b")
  case None
  obtain res s1 where bt: "barcode_try net s b = (res, s1)"
    by (cases "barcode_try net s b") simp
  have "calls s1 = calls s" using barcode_try_calls [of net s b] bt by simp
  with None bt show ?thesis
    by (cases res) (simp_all add: get_product_by_barcode_def)
next
  case (Some d)
  then show ?thesis by (simp add: get_product_by_barcode_def)
qed

lemma search_products_calls [simp]: "calls (snd (search_products net s q n)) = calls s"
  by (simp add: search_products_def search_try_def session_get_def
           split: outcome.splits body.splits sum.splits prod.splits)

lemma search_products_sent [simp]:
  "sent (snd (search_products net s q n)) = sent s @ [Get search_url (search_params q n) 10]"
  by (simp add: search_products_def search_try_def session_get_def
           split: outcome.splits body.splits sum.splits prod.splits)

lemma search_products_cache [simp]: "cache (snd (search_products net s q n)) = cache s"
  by (simp add: search_products_def search_try_def session_get_def
           split: outcome.splits body.splits sum.splits prod.splits)

lemma clean_loop_calls:
  "\<exists>cleans. calls (snd (clean_loop ps acc s)) = calls s @ map CleanProductData cleans"
proof (induction ps arbitrary: acc s)
  case Nil
  show ?case by simp
next
  case (Cons p ps)
  let ?s1 = "note_call (CleanProductData p) s"
  show ?case
  proof (cases "clean_product_data p")
    case (Inl e)
    then have "calls (snd (clean_loop (p # ps) acc s)) = calls s @ map CleanProductData [p]"
      by (simp add: Let_def)
    then show ?thesis by blast
  next
    case (Inr c)
    show ?thesis
    proof (cases c)
      case EmptyDict
      with Inr have "calls (snd (clean_loop (p # ps) acc s)) = calls s @ map CleanProductData [p]"
        by (simp add: Let_def)
      then show ?thesis by blast
    next
      case (Record r)
      from Cons.IH [of "if name r \<noteq> unknown_product then acc @ [r] else acc" ?s1]
      obtain cleans where
        "calls (snd (clean_loop ps (if name r \<noteq> unknown_product then acc @ [r] else acc) ?s1)) =
           calls ?s1 @ map CleanProductData cleans" by blast
      with Inr Record have
        "calls (snd (clean_loop (p # ps) acc s)) = calls s @ map CleanProductData (p # cleans)"
        by (cases "name r = unknown_product") (simp_all add: Let_def)
      then show ?thesis by blast
    qed
  qed
qed

lemma clean_loop_sent [simp]: "sent (snd (clean_loop ps acc s)) = sent s"
  by (induction ps arbitrary: acc s) (simp_all add: Let_def split: sum.splits cleaned.splits)

lemma clean_loop_cache [simp]: "cache (snd (clean_loop ps acc s)) = cache s"
  by (induction ps arbitrary: acc s) (simp_all add: Let_def split: sum.splits cleaned.splits)

lemma run_state:
  "strip entered \<noteq> [] \<Longrightarrow>
   snd (run net s entered) =
     (case fetch_products net s (strip entered) of
        (Inl e, s1) \<Rightarrow> s1
      | (Inr ps, s1) \<Rightarrow> snd (clean_loop ps [] s1))"
  by (simp add: run_def run_try_def Let_def split: prod.splits sum.splits)

lemma fetch_products_barcode:
  "isdigit q \<Longrightarrow> 8 \<le> length q \<Longrightarrow>
   fetch_products net s q =
     (case get_product_by_barcode net (note_call (GetProductByBarcode q) s) q of
        (Inl e, s1) \<Rightarrow> (Inl e, s1)
      | (Inr result, s1) \<Rightarrow> (barcode_products result, s1))"
  by (simp add: fetch_products_def)

lemma fetch_products_search:
  "\<not> (isdigit q \<and> 8 \<le> length q) \<Longrightarrow>
   fetch_products net s q =
     (case search_products net (note_call (SearchProducts q 25) s) q 25 of
        (Inl e, s1) \<Rightarrow> (Inl e, s1)
      | (Inr result, s1) \<Rightarrow>
          (bind_exc (dict_get result (ascii ''products'') (PyList [])) py_iter, s1))"
  by (simp only: fetch_products_def if_False)

lemma barcode_products_dict:
  "barcode_products (PyDict kvs) =
     Inr (if found kvs then [get_or kvs (ascii ''product'') PyNone] else [])"
  by (simp add: barcode_products_def found_def)

lemma fetch_products_barcode_calls:
  assumes "isdigit q" "8 \<le> length q"
  shows "calls (snd (fetch_products net s q)) = calls s @ [GetProductByBarcode q]"
proof -
  obtain res s1 where
    g: "get_product_by_barcode net (note_call (GetProductByBarcode q) s) q = (res, s1)"
    by (cases "get_product_by_barcode net (note_call (GetProductByBarcode q) s) q") simp
  have c: "calls s1 = calls s @ [GetProductByBarcode q]"
    using get_product_by_barcode_calls [of net "note_call (GetProductByBarcode q) s" q] g
    by simp
  show ?thesis
    unfolding fetch_products_barcode [OF assms] g by (cases res) (simp_all add: c)
qed

lemma fetch_products_search_calls:
  assumes "\<not> (isdigit q \<and> 8 \<le> length q)"
  shows "calls (snd (fetch_products net s q)) = calls s @ [SearchProducts q 25]"
    and "sent (snd (fetch_products net s q)) = sent s @ [Get search_url (search_params q 25) 10]"
proof -
  obtain res s1 where
    g: "search_products net (note_call (SearchProducts q 25) s) q 25 = (res, s1)"
    by (cases "search_products net (note_call (SearchProducts q 25) s) q 25") simp
  have c: "calls s1 = calls s @ [SearchProducts q 25]"
    using search_products_calls [of net "note_call (SearchProducts q 25) s" q 25] g by simp
  have d: "sent s1 = sent s @ [Get search_url (search_params q 25) 10]"
    using search_products_sent [of net "note_call (SearchProducts q 25) s" q 25] g by simp
  show "calls (snd (fetch_products net s q)) = calls s @ [SearchProducts q 25]"
    unfolding fetch_products_search [OF assms] g by (cases res) (simp_all add: c)
  show "sent (snd (fetch_products net s q)) = sent s @ [Get search_url (search_params q 25) 10]"
    unfolding fetch_products_search [OF assms] g by (cases res) (simp_all add: d)
qed

lemma run_calls:
  assumes "strip entered \<noteq> []"
  shows "\<exists>cleans. calls (snd (run net s entered)) =
           calls (snd (fetch_products net s (strip entered))) @ map CleanProductData cleans"
proof (cases "fetch_products net s (strip entered)")
  case (Pair res s1)
  show ?thesis
  proof (cases res)
    case (Inl e)
    with Pair assms have "calls (snd (run net s entered)) =
           calls (snd (fetch_products net s (strip entered))) @ map CleanProductData []"
      by (simp add: run_state)
    then show ?thesis by blast
  next
    case (Inr ps)
    from clean_loop_calls [of ps "[]" s1] obtain cleans where
      "calls (snd (clean_loop ps [] s1)) = calls s1 @ map CleanProductData cleans" by blast
    with Pair Inr assms have "calls (snd (run net s entered)) =
           calls (snd (fetch_products net s (strip entered))) @ map CleanProductData cleans"
      by (simp add: run_state)
    then show ?thesis by blast
  qed
qed

lemma run_sent:
  "strip entered \<noteq> [] \<Longrightarrow>
   sent (snd (run net s entered)) = sent (snd (fetch_products net s (strip entered)))"
  by (simp add: run_state split: prod.splits sum.splits)

lemma isdigit_not_Nil: "isdigit q \<Longrightarrow> q \<noteq> []"
  by (simp add: isdigit_def)

lemma barcode_try_not_found:
  "net (length (sent s)) (Get (barcode_url b) [] 8) = Response code (Json not_found) \<Longrightarrow>
   barcode_try net s b = (Inr not_found, s\<lparr>sent := sent s @ [Get (barcode_url b) [] 8]\<rparr>)"
  by (simp add: barcode_try_def session_get_def not_found_def)

text \<open>
  C9. A query that is empty after stripping makes \<open>run\<close> emit \<open>search_error\<close> with
  the fixed message \<open>enter_query\<close> and nothing else; the state is the one before
  the call, so no request was sent, no client method was called and the cache is
  untouched.
\<close>

theorem run_empty_query:
  "strip query0 = [] \<Longrightarrow> run net s query0 = ([search_error enter_query], s)"
  by (simp add: run_def run_try_def)

theorem run_empty_query_witness:
  "strip [32, 9, 32] = [] \<and>
   run offline initial_state [32, 9, 32] = ([search_error enter_query], initial_state)"
  using run_empty_query [of "[32, 9, 32]" offline initial_state]
  by (simp add: strip_def isspace_def)

text \<open>
  C8. A product whose \<open>product_name\<close> is the empty string and whose \<open>brands\<close> is a
  non-empty string is kept by the filter of \<open>search_products\<close>; \<open>clean_product_data\<close>
  gives it the placeholder name; and the loop of \<open>run\<close> then leaves it out of
  \<open>cleaned_products\<close>. When it is the only product of a text search, \<open>run\<close> emits
  \<open>search_complete\<close> with the empty list.
\<close>

theorem brand_alone_excluded:
  assumes pn: "map_of kvs (ascii ''product_name'') = Some (PyStr [])"
    and br: "map_of kvs (ascii ''brands'') = Some (PyStr b)"
    and b: "b \<noteq> []"
  shows "valid_products (PyDict kvs # ps) acc = valid_products ps (acc @ [PyDict kvs]) \<and>
    (\<exists>r. clean_product_data (PyDict kvs) = Inr (Record r) \<and> name r = unknown_product \<and>
          clean_loop (PyDict kvs # ps) found_so_far s =
            clean_loop ps found_so_far (note_call (CleanProductData (PyDict kvs)) s)) \<and>
    (strip entered \<noteq> [] \<and> \<not> (isdigit (strip entered) \<and> 8 \<le> length (strip entered)) \<and>
     net (length (sent s)) (Get search_url (search_params (strip entered) 25) 10) =
       Response code (Json (PyDict [(ascii ''products'', PyList [PyDict kvs])]))
     \<longrightarrow> fst (run net s entered) = [search_complete []])"
proof -
  have ne: "kvs \<noteq> []" using pn by auto
  have g1: "get_or kvs (ascii ''product_name'') d = PyStr []" for d
    using pn by (simp add: get_or_def)
  have g2: "get_or kvs (ascii ''brands'') d = PyStr b" for d
    using br by (simp add: get_or_def)
  have keep: "valid_products (PyDict kvs # ps) acc = valid_products ps (acc @ [PyDict kvs])" for ps acc
    by (rule valid_products_keep) (simp add: g1 g2 b)
  define r where "r = \<lparr>name = placeholder_if_blank (strip []) unknown_product,
                  brand = placeholder_if_blank (strip b) dash,
                  barcode = py_or (get_or kvs (ascii ''code'') PyNone) (PyStr dash),
                  quantity = py_or (get_or kvs (ascii ''quantity'') PyNone) (PyStr dash),
                  nutriments = get_or kvs (ascii ''nutriments'') (PyDict [])\<rparr>"
  have cl: "clean_product_data (PyDict kvs) = Inr (Record r)"
    unfolding r_def by (rule clean_dict_str [OF ne g1 g2])
  have nm: "name r = unknown_product"
    by (simp add: r_def placeholder_if_blank_def)
  have lp: "clean_loop (PyDict kvs # ps) acc s =
            clean_loop ps acc (note_call (CleanProductData (PyDict kvs)) s)" for ps acc s
    using clean_loop_record [OF cl, of ps acc s] by (simp add: nm del: clean_loop.simps)
  have e2e: "fst (run net s entered) = [search_complete []]"
    if q: "strip entered \<noteq> []" and t: "\<not> (isdigit (strip entered) \<and> 8 \<le> length (strip entered))"
      and n: "net (length (sent s)) (Get search_url (search_params (strip entered) 25) 10) =
       Response code (Json (PyDict [(ascii ''products'', PyList [PyDict kvs])]))"
  proof -
    have n': "net (length (sent (note_call (SearchProducts (strip entered) 25) s)))
        (Get search_url (search_params (strip entered) 25) 10) =
       Response code (Json (PyDict [(ascii ''products'', PyList [PyDict kvs])]))"
      using n by simp
    have c: "(isdigit (strip entered) \<and> 8 \<le> length (strip entered)) = False"
      using t by simp
    have f: "fst (fetch_products net s (strip entered)) = Inr [PyDict kvs]"
      by (simp add: c fetch_products_def search_products_response [where net = net and s = "note_call (SearchProducts (strip entered) 25) s", OF n'] py_iter_def keep
                del: valid_products.simps(2))
    obtain s1 where s1: "fetch_products net s (strip entered) = (Inr [PyDict kvs], s1)"
      using f by (cases "fetch_products net s (strip entered)") simp
    show ?thesis
      using q by (simp add: run_def run_try_def Let_def s1 lp del: clean_loop.simps(2))
  qed
  from keep cl nm lp e2e show ?thesis by blast
qed

theorem brand_alone_excluded_witness:
  "valid_products [acme] [] = Inr [acme] \<and>
   fst (run (serving 200 (PyDict [(ascii ''products'', PyList [acme])])) initial_state
          (ascii ''yogurt'')) = [search_complete []]"
  using brand_alone_excluded [where
      kvs = "[(ascii ''product_name'', PyStr []), (ascii ''brands'', PyStr (ascii ''Acme''))]"
      and b = "ascii ''Acme''" and ps = "[]" and acc = "[]" and found_so_far = "[]"
      and s = initial_state and entered = "ascii ''yogurt''" and code = 200
      and net = "serving 200 (PyDict [(ascii ''products'', PyList [acme])])"]
  by (simp add: acme_def serving_def strip_def isspace_def isdigit_def isdigit_char_def
        digit_ranges_def ascii_def)

text \<open>
  C5. For a query that is non-empty after stripping, \<open>run\<close> calls
  \<open>get_product_by_barcode\<close> when the query passes \<open>isdigit\<close> and has at least 8
  characters, and \<open>search_products\<close> with page size 25 otherwise; it makes no other
  call but those of \<open>clean_product_data\<close> on the candidates. In the barcode branch
  a result with status 1 and a truthy product gives the one-element candidate list
  and any other dict the empty one; in the other branch the request sent carries
  \<open>page_size = 25\<close>.
\<close>

theorem run_classification:
  assumes "strip entered = q" and "q \<noteq> []"
  shows "(isdigit q \<and> 8 \<le> length q \<longrightarrow>
            (\<exists>cleans. calls (snd (run net s entered)) =
               calls s @ GetProductByBarcode q # map CleanProductData cleans) \<and>
            (\<forall>kvs s1. get_product_by_barcode net (note_call (GetProductByBarcode q) s) q =
                        (Inr (PyDict kvs), s1) \<longrightarrow>
               fst (fetch_products net s q) =
                 Inr (if found kvs then [get_or kvs (ascii ''product'') PyNone] else []))) \<and>
         (\<not> (isdigit q \<and> 8 \<le> length q) \<longrightarrow>
            (\<exists>cleans. calls (snd (run net s entered)) =
               calls s @ SearchProducts q 25 # map CleanProductData cleans) \<and>
            sent (snd (run net s entered)) = sent s @ [Get search_url (search_params q 25) 10])"
proof -
  have ne: "strip entered \<noteq> []" using assms by simp
  from run_calls [OF ne, of net s] obtain cleans where
    cl: "calls (snd (run net s entered)) =
           calls (snd (fetch_products net s q)) @ map CleanProductData cleans"
    using assms by auto
  have A: "\<exists>cleans. calls (snd (run net s entered)) =
               calls s @ GetProductByBarcode q # map CleanProductData cleans"
    if "isdigit q" "8 \<le> length q"
    using cl fetch_products_barcode_calls [OF that, of net s] by auto
  have B: "fst (fetch_products net s q) =
                 Inr (if found kvs then [get_or kvs (ascii ''product'') PyNone] else [])"
    if "isdigit q" "8 \<le> length q"
      and "get_product_by_barcode net (note_call (GetProductByBarcode q) s) q = (Inr (PyDict kvs), s1)"
    for kvs s1
    unfolding fetch_products_barcode [OF that(1,2)] that(3)
    by (simp add: barcode_products_dict)
  have C: "\<exists>cleans. calls (snd (run net s entered)) =
               calls s @ SearchProducts q 25 # map CleanProductData cleans"
    if "\<not> (isdigit q \<and> 8 \<le> length q)"
    using cl fetch_products_search_calls(1) [OF that, of net s] by auto
  have D: "sent (snd (run net s entered)) = sent s @ [Get search_url (search_params q 25) 10]"
    if "\<not> (isdigit q \<and> 8 \<le> length q)"
    using run_sent [OF ne, of net s] fetch_products_search_calls(2) [OF that, of net s] assms
    by simp
  from A B C D show ?thesis by blast
qed

theorem run_classification_witness:
  "isdigit ean \<and> 8 \<le> length ean \<and>
   (\<exists>cleans. calls (snd (run (serving 200 milk_document) initial_state ean)) =
      calls initial_state @ GetProductByBarcode ean # map CleanProductData cleans) \<and>
   \<not> (isdigit yogurt \<and> 8 \<le> length yogurt) \<and>
   sent (snd (run offline initial_state yogurt)) =
     sent initial_state @ [Get search_url (search_params yogurt 25) 10]"
proof -
  have d: "isdigit ean" "8 \<le> length ean"
    by (simp_all add: ean_def isdigit_def isdigit_char_def digit_ranges_def ascii_def)
  have y: "\<not> (isdigit yogurt \<and> 8 \<le> length yogurt)"
    by (simp add: yogurt_def ascii_def)
  have s1: "strip ean = ean" "ean \<noteq> []"
    by (simp_all add: ean_def strip_def isspace_def ascii_def)
  have s2: "strip yogurt = yogurt" "yogurt \<noteq> []"
    by (simp_all add: yogurt_def strip_def isspace_def ascii_def)
  from run_classification [OF s1, of "serving 200 milk_document" initial_state]
       run_classification [OF s2, of offline initial_state] d y
  show ?thesis by blast
qed

text \<open>
  C6. When the stripped query passes the barcode test, is not in the cache, and the
  provider answers the lookup with the not-found document
  \<open>{"status": 0, "product": None}\<close> (under any status code), \<open>run\<close> emits
  \<open>search_complete\<close> with the empty list and no \<open>search_error\<close>; the cache stays as
  it was.
\<close>

theorem run_not_found:
  assumes "isdigit (strip entered)" and "8 \<le> length (strip entered)"
    and "cache s (strip entered) = None"
    and "net (length (sent s)) (Get (barcode_url (strip entered)) [] 8) =
           Response code (Json not_found)"
  shows "fst (run net s entered) = [search_complete []] \<and>
         cache (snd (run net s entered)) = cache s"
proof -
  let ?q = "strip entered"
  let ?s0 = "note_call (GetProductByBarcode ?q) s"
  have ne: "?q \<noteq> []" using assms(1) by (rule isdigit_not_Nil)
  have n: "net (length (sent ?s0)) (Get (barcode_url ?q) [] 8) = Response code (Json not_found)"
    using assms(4) by simp
  have g: "get_product_by_barcode net ?s0 ?q =
        (Inr not_found, ?s0\<lparr>sent := sent ?s0 @ [Get (barcode_url ?q) [] 8]\<rparr>)"
    using assms(3)
    by (simp add: get_product_by_barcode_def
          barcode_try_not_found [where net = net and s = ?s0, OF n])
  have bp: "barcode_products not_found = Inr []"
    by (simp add: not_found_def barcode_products_dict found_def)
  have f: "fetch_products net s ?q =
        (Inr [], ?s0\<lparr>sent := sent ?s0 @ [Get (barcode_url ?q) [] 8]\<rparr>)"
    unfolding fetch_products_barcode [OF assms(1,2)] g by (simp add: bp)
  show ?thesis
    using ne by (simp add: run_def run_try_def Let_def f)
qed

theorem run_not_found_witness:
  "fst (run (serving 200 not_found) initial_state ean) = [search_complete []]"
proof -
  have s: "strip ean = ean"
    by (simp add: ean_def strip_def isspace_def ascii_def)
  have d: "isdigit (strip ean)" "8 \<le> length (strip ean)"
    unfolding s by (simp_all add: ean_def isdigit_def isdigit_char_def digit_ranges_def ascii_def)
  have c: "cache initial_state (strip ean) = None"
    by (simp add: initial_state_def)
  have n: "serving 200 not_found (length (sent initial_state)) (Get (barcode_url (strip ean)) [] 8) =
           Response 200 (Json not_found)"
    by (simp add: serving_def)
  from run_not_found [where net = "serving 200 not_found" and s = initial_state, OF d c n]
  show ?thesis by simp
qed

text \<open>
  C1. Every \<open>run\<close> emits exactly one signal, \<open>search_complete\<close> or \<open>search_error\<close>.
  Whenever the \<open>try\<close> block ends by an exception, nothing was emitted before it and
  the signal is \<open>search_error\<close> with \<open>str\<close> of that exception: so it is for an
  exception of \<open>get_product_by_barcode\<close>, of \<open>search_products\<close> and of the loop that
  calls \<open>clean_product_data\<close>. All exceptions of the model are instances of
  \<open>Exception\<close>, and \<open>emit\<close> itself does not raise.
\<close>

theorem run_one_signal:
  "(\<exists>sg. fst (run net s entered) = [sg]) \<and>
   (\<forall>sigs e s1. run_try net s entered = (sigs, Inl e, s1) \<longrightarrow>
      run net s entered = ([search_error (str_exc e)], s1)) \<and>
   (\<forall>e s1. strip entered \<noteq> [] \<and> isdigit (strip entered) \<and> 8 \<le> length (strip entered) \<and>
      get_product_by_barcode net (note_call (GetProductByBarcode (strip entered)) s) (strip entered) =
        (Inl e, s1) \<longrightarrow>
      run net s entered = ([search_error (str_exc e)], s1)) \<and>
   (\<forall>e s1. strip entered \<noteq> [] \<and> \<not> (isdigit (strip entered) \<and> 8 \<le> length (strip entered)) \<and>
      search_products net (note_call (SearchProducts (strip entered) 25) s) (strip entered) 25 =
        (Inl e, s1) \<longrightarrow>
      run net s entered = ([search_error (str_exc e)], s1)) \<and>
   (\<forall>ps s1 e s2. strip entered \<noteq> [] \<and> fetch_products net s (strip entered) = (Inr ps, s1) \<and>
      clean_loop ps [] s1 = (Inl e, s2) \<longrightarrow>
      run net s entered = ([search_error (str_exc e)], s2))"
proof -
  let ?q = "strip entered"
  have try_sigs: "sigs = []" if "run_try net s entered = (sigs, Inl e, s1)" for sigs e s1
    using that by (auto simp: run_try_def Let_def split: if_splits prod.splits sum.splits)
  have one: "\<exists>sg. fst (run net s entered) = [sg]"
  proof (cases "run_try net s entered")
    case (fields sigs res s1)
    show ?thesis
    proof (cases res)
      case (Inl e)
      with fields try_sigs have "sigs = []" by blast
      with fields Inl show ?thesis by (simp add: run_def)
    next
      case (Inr u)
      with fields have "\<exists>sg. sigs = [sg]"
        by (auto simp: run_try_def Let_def split: if_splits prod.splits sum.splits)
      with fields Inr show ?thesis by (auto simp: run_def)
    qed
  qed
  have A: "run net s entered = ([search_error (str_exc e)], s1)"
    if "run_try net s entered = (sigs, Inl e, s1)" for sigs e s1
    using that try_sigs [OF that] by (simp add: run_def)
  have B: "run net s entered = ([search_error (str_exc e)], s1)"
    if "?q \<noteq> []" "isdigit ?q" "8 \<le> length ?q"
      "get_product_by_barcode net (note_call (GetProductByBarcode ?q) s) ?q = (Inl e, s1)"
    for e s1
  proof -
    have "fetch_products net s ?q = (Inl e, s1)"
      unfolding fetch_products_barcode [OF that(2,3)] that(4) by simp
    with that(1) have "run_try net s entered = ([], Inl e, s1)"
      by (simp add: run_try_def Let_def)
    then show ?thesis by (rule A)
  qed
  have C: "run net s entered = ([search_error (str_exc e)], s1)"
    if "?q \<noteq> []" "\<not> (isdigit ?q \<and> 8 \<le> length ?q)"
      "search_products net (note_call (SearchProducts ?q 25) s) ?q 25 = (Inl e, s1)"
    for e s1
  proof -
    have "fetch_products net s ?q = (Inl e, s1)"
      unfolding fetch_products_search [OF that(2)] that(3) by simp
    with that(1) have "run_try net s entered = ([], Inl e, s1)"
      by (simp add: run_try_def Let_def)
    then show ?thesis by (rule A)
  qed
  have D: "run net s entered = ([search_error (str_exc e)], s2)"
    if "?q \<noteq> []" "fetch_products net s ?q = (Inr ps, s1)" "clean_loop ps [] s1 = (Inl e, s2)"
    for ps s1 e s2
  proof -
    from that have "run_try net s entered = ([], Inl e, s2)"
      by (simp add: run_try_def Let_def)
    then show ?thesis by (rule A)
  qed
  from one A B C D show ?thesis by blast
qed

theorem run_one_signal_witness:
  "fst (run offline initial_state ean) =
     [search_error (lookup_prefix @ ascii ''timed out'')] \<and>
   fst (run offline initial_state yogurt) =
     [search_error (search_prefix @ ascii ''timed out'')]"
proof -
  have s1: "strip ean = ean" "ean \<noteq> []"
    by (simp_all add: ean_def strip_def isspace_def ascii_def)
  have d: "isdigit ean" "8 \<le> length ean"
    by (simp_all add: ean_def isdigit_def isdigit_char_def digit_ranges_def ascii_def)
  have s2: "strip yogurt = yogurt" "yogurt \<noteq> []"
    by (simp_all add: yogurt_def strip_def isspace_def ascii_def)
  have y: "\<not> (isdigit yogurt \<and> 8 \<le> length yogurt)"
    by (simp add: yogurt_def ascii_def)
  obtain t1 where g: "get_product_by_barcode offline
      (note_call (GetProductByBarcode ean) initial_state) ean =
        (Inl (Exception (lookup_prefix @ ascii ''timed out'')), t1)"
    by (simp add: get_product_by_barcode_def barcode_try_def session_get_def offline_def
          initial_state_def note_call_def)
  obtain t2 where h: "search_products offline
      (note_call (SearchProducts yogurt 25) initial_state) yogurt 25 =
        (Inl (Exception (search_prefix @ ascii ''timed out'')), t2)"
    by (simp add: search_products_def search_try_def session_get_def offline_def)
  from run_one_signal [of offline initial_state ean] s1 d g
  have a: "run offline initial_state ean =
      ([search_error (str_exc (Exception (lookup_prefix @ ascii ''timed out'')))], t1)"
    by simp
  from run_one_signal [of offline initial_state yogurt] s2 y h
  have b: "run offline initial_state yogurt =
      ([search_error (str_exc (Exception (search_prefix @ ascii ''timed out'')))], t2)"
    by simp
  from a b show ?thesis by simp
qed

section \<open>get_product_by_barcode and the cache\<close>

lemma barcode_try_dict:
  assumes "net (length (sent s)) (Get (barcode_url b) [] 8) = Response 200 (Json (PyDict kvs))"
  shows "barcode_try net s b =
     (if found kvs
      then (Inr (PyDict kvs),
            s\<lparr>sent := sent s @ [Get (barcode_url b) [] 8], cache := (cache s)(b \<mapsto> PyDict kvs)\<rparr>)
      else (Inr not_found, s\<lparr>sent := sent s @ [Get (barcode_url b) [] 8]\<rparr>))"
  using assms by (simp add: barcode_try_def session_get_def found_def)

lemma barcode_try_other:
  assumes "\<forall>kvs. net (length (sent s)) (Get (barcode_url b) [] 8) \<noteq> Response 200 (Json (PyDict kvs))"
  shows "cache (snd (barcode_try net s b)) = cache s"
proof (cases "net (length (sent s)) (Get (barcode_url b) [] 8)")
  case (Raises e)
  then show ?thesis by (simp add: barcode_try_def session_get_def)
next
  case (Response code bd)
  show ?thesis
  proof (cases "code = 200")
    case False
    with Response show ?thesis by (simp add: barcode_try_def session_get_def)
  next
    case True
    show ?thesis
    proof (cases bd)
      case (Malformed e)
      with Response True show ?thesis by (simp add: barcode_try_def session_get_def)
    next
      case (Json data)
      with Response True assms have "\<forall>kvs. data \<noteq> PyDict kvs" by auto
      then have "dict_get data (ascii ''status'') PyNone =
                   Inl (AttributeError (type_name data) (ascii ''get''))"
        by (cases data) (simp_all add: dict_get_def)
      with Response True Json show ?thesis by (simp add: barcode_try_def session_get_def)
    qed
  qed
qed

lemma get_product_cached:
  "cache s b = Some d \<Longrightarrow> get_product_by_barcode net s b = (Inr d, s)"
  by (simp add: get_product_by_barcode_def)

lemma get_product_miss_sent:
  assumes "cache s b = None"
  shows "sent (snd (get_product_by_barcode net s b)) = sent s @ [Get (barcode_url b) [] 8]"
proof -
  obtain res s1 where bt: "barcode_try net s b = (res, s1)"
    by (cases "barcode_try net s b") simp
  have "sent s1 = sent s @ [Get (barcode_url b) [] 8]"
    using barcode_try_sent [of net s b] bt by simp
  with assms bt show ?thesis
    by (cases res) (simp_all add: get_product_by_barcode_def)
qed

lemma get_product_miss_cache:
  assumes "cache s b = None"
  shows "cache (snd (get_product_by_barcode net s b)) = cache (snd (barcode_try net s b))"
proof -
  obtain res s1 where bt: "barcode_try net s b = (res, s1)"
    by (cases "barcode_try net s b") simp
  with assms show ?thesis
    by (cases res) (simp_all add: get_product_by_barcode_def)
qed

lemma get_product_cache_cases:
  "cache (snd (get_product_by_barcode net s b)) = cache s \<or>
   (\<exists>kvs. cache s b = None \<and>
      net (length (sent s)) (Get (barcode_url b) [] 8) = Response 200 (Json (PyDict kvs)) \<and>
      found kvs \<and> cache (snd (get_product_by_barcode net s b)) = (cache s)(b \<mapsto> PyDict kvs))"
proof (cases "cache s b")
  case (Some d)
  then show ?thesis by (simp add: get_product_cached)
next
  case None
  show ?thesis
  proof (cases "\<exists>kvs. net (length (sent s)) (Get (barcode_url b) [] 8) = Response 200 (Json (PyDict kvs))")
    case False
    then have "cache (snd (barcode_try net s b)) = cache s"
      by (intro barcode_try_other) simp
    with None show ?thesis by (simp add: get_product_miss_cache)
  next
    case True
    then obtain kvs where
      n: "net (length (sent s)) (Get (barcode_url b) [] 8) = Response 200 (Json (PyDict kvs))"
      by blast
    show ?thesis
    proof (cases "found kvs")
      case True
      with None n have "cache (snd (get_product_by_barcode net s b)) = (cache s)(b \<mapsto> PyDict kvs)"
        by (simp add: get_product_miss_cache barcode_try_dict [where net = net and s = s, OF n])
      with None n True show ?thesis by blast
    next
      case False
      with None n show ?thesis
        by (simp add: get_product_miss_cache barcode_try_dict [where net = net and s = s, OF n])
    qed
  qed
qed

lemma get_product_cached_after:
  "cache (snd (get_product_by_barcode net s b)) b \<noteq> None \<longleftrightarrow>
     cache s b \<noteq> None \<or> lookup_succeeds net s b"
proof (cases "cache s b")
  case (Some d)
  then show ?thesis by (simp add: get_product_cached)
next
  case None
  show ?thesis
  proof (cases "lookup_succeeds net s b")
    case True
    then obtain kvs where
      n: "net (length (sent s)) (Get (barcode_url b) [] 8) = Response 200 (Json (PyDict kvs))"
      and f: "found kvs"
      by (auto simp: lookup_succeeds_def)
    with None True show ?thesis
      by (simp add: get_product_miss_cache barcode_try_dict [where net = net and s = s, OF n])
  next
    case False
    from get_product_cache_cases [of net s b] False None
    have "cache (snd (get_product_by_barcode net s b)) = cache s"
      by (auto simp: lookup_succeeds_def)
    with None False show ?thesis by simp
  qed
qed

text \<open>
  C2, as stated: two consecutive lookups of the same barcode send at most one request.
  This fails when the first lookup is not successful: the not-found document is not
  cached, and the second lookup sends the request again.
\<close>

theorem lookup_twice_counterexample:
  "sent (snd (get_product_by_barcode (serving 200 not_found)
           (snd (get_product_by_barcode (serving 200 not_found) initial_state ean)) ean)) =
     [Get (barcode_url ean) [] 8, Get (barcode_url ean) [] 8]"
  by (simp add: get_product_by_barcode_def barcode_try_def session_get_def serving_def
        initial_state_def not_found_def)

text \<open>
  C2, amended. For two consecutive lookups of \<open>b\<close> from any state: when \<open>b\<close> is
  cached or the first lookup succeeds (status code 200, status 1, truthy product),
  the second lookup is answered from the cache, changes nothing, and at most one
  request is sent in total; when \<open>b\<close> is not cached and the first lookup does not
  succeed, each of the two lookups sends the request. A lookup leaves the cache as
  it is or, after a successful lookup only, adds the document under \<open>b\<close>;
  \<open>search_products\<close> never changes the cache.
\<close>

theorem lookup_twice:
  assumes first: "get_product_by_barcode net s b = (r1, s1)"
    and second: "get_product_by_barcode net s1 b = (r2, s2)"
  shows "(cache s b \<noteq> None \<or> lookup_succeeds net s b \<longrightarrow>
            (\<exists>d. cache s1 b = Some d \<and> r2 = Inr d) \<and> s2 = s1 \<and>
            length (sent s2) \<le> length (sent s) + 1) \<and>
         (cache s b = None \<and> \<not> lookup_succeeds net s b \<longrightarrow>
            sent s2 = sent s @ [Get (barcode_url b) [] 8, Get (barcode_url b) [] 8]) \<and>
         (cache s1 = cache s \<or>
            (\<exists>kvs. cache s b = None \<and>
               net (length (sent s)) (Get (barcode_url b) [] 8) =
                 Response 200 (Json (PyDict kvs)) \<and>
               found kvs \<and> cache s1 = (cache s)(b \<mapsto> PyDict kvs))) \<and>
         cache (snd (search_products net s1 q n)) = cache s1"
proof -
  have c1: "cache s1 b \<noteq> None \<longleftrightarrow> cache s b \<noteq> None \<or> lookup_succeeds net s b"
    using get_product_cached_after [of net s b] first by simp
  have len: "length (sent s1) \<le> length (sent s) + 1"
  proof (cases "cache s b")
    case None
    from get_product_miss_sent [OF None, of net] first show ?thesis by simp
  next
    case (Some d)
    with first show ?thesis by (simp add: get_product_cached)
  qed
  have A: "(\<exists>d. cache s1 b = Some d \<and> r2 = Inr d) \<and> s2 = s1 \<and>
            length (sent s2) \<le> length (sent s) + 1"
    if "cache s b \<noteq> None \<or> lookup_succeeds net s b"
  proof -
    from that c1 obtain d where d: "cache s1 b = Some d" by auto
    from get_product_cached [OF d, of net] second have "s2 = s1" "r2 = Inr d" by simp_all
    with d len show ?thesis by simp
  qed
  have B: "sent s2 = sent s @ [Get (barcode_url b) [] 8, Get (barcode_url b) [] 8]"
    if "cache s b = None" "\<not> lookup_succeeds net s b"
  proof -
    from that c1 have n1: "cache s1 b = None" by simp
    from get_product_miss_sent [OF that(1), of net] first
    have "sent s1 = sent s @ [Get (barcode_url b) [] 8]" by simp
    moreover from get_product_miss_sent [OF n1, of net] second
    have "sent s2 = sent s1 @ [Get (barcode_url b) [] 8]" by simp
    ultimately show ?thesis by simp
  qed
  have C: "cache s1 = cache s \<or>
            (\<exists>kvs. cache s b = None \<and>
               net (length (sent s)) (Get (barcode_url b) [] 8) =
                 Response 200 (Json (PyDict kvs)) \<and>
               found kvs \<and> cache s1 = (cache s)(b \<mapsto> PyDict kvs))"
    using get_product_cache_cases [of net s b] first by simp
  have D: "cache (snd (search_products net s1 q n)) = cache s1" by simp
  from A B C D show ?thesis by blast
qed

theorem lookup_twice_witness:
  "get_product_by_barcode (serving 200 milk_document) initial_state ean =
     (Inr milk_document,
      \<lparr>cache = [ean \<mapsto> milk_document], sent = [Get (barcode_url ean) [] 8], calls = []\<rparr>) \<and>
   get_product_by_barcode (serving 200 milk_document)
     \<lparr>cache = [ean \<mapsto> milk_document], sent = [Get (barcode_url ean) [] 8], calls = []\<rparr> ean =
     (Inr milk_document,
      \<lparr>cache = [ean \<mapsto> milk_document], sent = [Get (barcode_url ean) [] 8], calls = []\<rparr>) \<and>
   lookup_succeeds (serving 200 milk_document) initial_state ean"
proof -
  let ?s1 = "\<lparr>cache = [ean \<mapsto> milk_document], sent = [Get (barcode_url ean) [] 8], calls = []\<rparr>"
  have a: "get_product_by_barcode (serving 200 milk_document) initial_state ean =
     (Inr milk_document, ?s1)"
    by (simp add: get_product_by_barcode_def barcode_try_def session_get_def serving_def
          initial_state_def milk_document_def milk_def)
  have l: "lookup_succeeds (serving 200 milk_document) initial_state ean"
    by (simp add: lookup_succeeds_def serving_def milk_document_def found_def milk_def)
  obtain r2 s2 where b: "get_product_by_barcode (serving 200 milk_document) ?s1 ean = (r2, s2)"
    by (cases "get_product_by_barcode (serving 200 milk_document) ?s1 ean") simp
  from lookup_twice [OF a b] l have "s2 = ?s1" "r2 = Inr milk_document"
    by simp_all
  with a b l show ?thesis by simp
qed

section \<open>Cleaning twice\<close>

lemma placeholder_again:
  "strip ph = ph \<Longrightarrow> ph \<noteq> [] \<Longrightarrow> ph \<noteq> ascii ''null'' \<Longrightarrow>
   placeholder_if_blank (strip (placeholder_if_blank (strip s) ph)) ph =
     placeholder_if_blank (strip s) ph"
  by (simp add: placeholder_if_blank_def)

lemma py_or_again: "truthy d \<Longrightarrow> py_or (py_or x d) d = py_or x d"
  by (simp add: py_or_def)

lemma clean_record_dict:
  "clean_product_data (record_dict r) =
     Inr (Record \<lparr>name = unknown_product, brand = dash, barcode = PyStr dash,
                  quantity = py_or (quantity r) (PyStr dash), nutriments = nutriments r\<rparr>)"
proof -
  have ne: "[(ascii ''name'', PyStr (name r)), (ascii ''brand'', PyStr (brand r)),
             (ascii ''barcode'', barcode r), (ascii ''quantity'', quantity r),
             (ascii ''nutriments'', nutriments r)] \<noteq> []" by simp
  show ?thesis
    unfolding record_dict_def clean_dict [OF ne]
    by (simp add: py_strip_def placeholder_if_blank_def py_or_def)
qed

text \<open>
  C4, as stated: \<open>clean_product_data\<close> applied to its own output gives that output
  again. This fails: the output has the keys \<open>name\<close>, \<open>brand\<close> and \<open>barcode\<close>,
  while \<open>clean_product_data\<close> reads \<open>product_name\<close>, \<open>brands\<close> and \<open>code\<close>, so
  the second pass replaces the name by the placeholder.
\<close>

theorem clean_twice_counterexample:
  "clean_product_data milk = Inr (Record milk_record) \<and>
   clean_product_data (cleaned_dict (Record milk_record)) =
     Inr (Record (milk_record\<lparr>name := unknown_product\<rparr>)) \<and>
   milk_record\<lparr>name := unknown_product\<rparr> \<noteq> milk_record"
proof -
  have a: "clean_product_data milk = Inr (Record milk_record)"
    by (simp add: clean_product_data_def milk_def milk_record_def py_strip_def strip_def
          isspace_def placeholder_if_blank_def py_or_def ascii_def)
  have b: "clean_product_data (cleaned_dict (Record milk_record)) =
     Inr (Record (milk_record\<lparr>name := unknown_product\<rparr>))"
    by (simp add: clean_record_dict milk_record_def py_or_def)
  have c: "milk_record\<lparr>name := unknown_product\<rparr> \<noteq> milk_record"
    by (simp add: milk_record_def unknown_product_def ascii_def)
  from a b c show ?thesis by simp
qed

text \<open>
  C4, amended. \<open>clean_product_data\<close> is idempotent on the field values: for every
  record it returns, cleaning the product that carries the record's values under
  the keys it reads (\<open>product_name\<close>, \<open>brands\<close>, \<open>code\<close>, \<open>quantity\<close>,
  \<open>nutriments\<close>) returns the same record. Applied to the returned dict as it is,
  it keeps quantity and nutriments and puts the placeholders for name, brand and
  barcode.
\<close>

theorem clean_twice:
  assumes "clean_product_data product = Inr (Record r)"
  shows "clean_product_data (raw_of_record r) = Inr (Record r) \<and>
         clean_product_data (record_dict r) =
           Inr (Record \<lparr>name = unknown_product, brand = dash, barcode = PyStr dash,
                        quantity = quantity r, nutriments = nutriments r\<rparr>)"
proof -
  from assms obtain kvs where p: "product = PyDict kvs" and ne: "kvs \<noteq> []"
    using clean_Inr_dict by blast
  from assms p ne obtain n b where
    n: "get_or kvs (ascii ''product_name'') (PyStr []) = PyStr n" and
    b: "get_or kvs (ascii ''brands'') (PyStr []) = PyStr b"
    using clean_dict_Inr by blast
  define c where "c = get_or kvs (ascii ''code'') PyNone"
  define q where "q = get_or kvs (ascii ''quantity'') PyNone"
  define nu where "nu = get_or kvs (ascii ''nutriments'') (PyDict [])"
  from assms have r: "r = \<lparr>name = placeholder_if_blank (strip n) unknown_product,
                  brand = placeholder_if_blank (strip b) dash,
                  barcode = py_or c (PyStr dash),
                  quantity = py_or q (PyStr dash),
                  nutriments = nu\<rparr>"
    unfolding p clean_dict_str [OF ne n b] c_def q_def nu_def by simp
  have f: "name r = placeholder_if_blank (strip n) unknown_product"
    "brand r = placeholder_if_blank (strip b) dash"
    "barcode r = py_or c (PyStr dash)" "quantity r = py_or q (PyStr dash)" "nutriments r = nu"
    by (simp_all add: r)
  have rne: "[(ascii ''product_name'', PyStr (name r)), (ascii ''brands'', PyStr (brand r)),
             (ascii ''code'', barcode r), (ascii ''quantity'', quantity r),
             (ascii ''nutriments'', nutriments r)] \<noteq> []" by simp
  have g1: "get_or [(ascii ''product_name'', PyStr (name r)), (ascii ''brands'', PyStr (brand r)),
             (ascii ''code'', barcode r), (ascii ''quantity'', quantity r),
             (ascii ''nutriments'', nutriments r)] (ascii ''product_name'') (PyStr []) = PyStr (name r)"
    by simp
  have g2: "get_or [(ascii ''product_name'', PyStr (name r)), (ascii ''brands'', PyStr (brand r)),
             (ascii ''code'', barcode r), (ascii ''quantity'', quantity r),
             (ascii ''nutriments'', nutriments r)] (ascii ''brands'') (PyStr []) = PyStr (brand r)"
    by simp
  have td: "truthy (PyStr dash)" by simp
  have "clean_product_data (raw_of_record r) =
     Inr (Record \<lparr>name = placeholder_if_blank (strip (name r)) unknown_product,
                  brand = placeholder_if_blank (strip (brand r)) dash,
                  barcode = py_or (barcode r) (PyStr dash),
                  quantity = py_or (quantity r) (PyStr dash),
                  nutriments = nutriments r\<rparr>)"
    unfolding raw_of_record_def clean_dict_str [OF rne g1 g2] by simp
  also have "\<dots> = Inr (Record r)"
    unfolding f by (simp add: placeholder_again py_or_again [OF td] r c_def q_def nu_def)
  finally have A: "clean_product_data (raw_of_record r) = Inr (Record r)" .
  have "py_or (quantity r) (PyStr dash) = quantity r"
    unfolding f by (rule py_or_again [OF td])
  with clean_record_dict [of r] have B: "clean_product_data (record_dict r) =
           Inr (Record \<lparr>name = unknown_product, brand = dash, barcode = PyStr dash,
                        quantity = quantity r, nutriments = nutriments r\<rparr>)"
    by simp
  from A B show ?thesis by simp
qed

theorem clean_twice_witness:
  "clean_product_data milk = Inr (Record milk_record) \<and>
   clean_product_data (raw_of_record milk_record) = Inr (Record milk_record)"
proof -
  have a: "clean_product_data milk = Inr (Record milk_record)"
    by (simp add: clean_product_data_def milk_def milk_record_def py_strip_def strip_def
          isspace_def placeholder_if_blank_def py_or_def ascii_def)
  from clean_twice [OF a] a show ?thesis by simp
qed

end
